theory Spec2Isabelle
  imports
    Main
    "HOL-Library.Word"
    "HOL-Library.Sublist"
    "HOL-Library.Multiset"
    "HOL-Library.Product_Lexorder"
begin

section \<open>Data model (package models)\<close>

text \<open>
  \<^verbatim>\<open>type SyncStatus string\<close>: a status is a string, and the four constants are the
  values the executor writes. A list request can carry any string as its filter.
\<close>

type_synonym SyncStatus = string

definition StatusPending :: SyncStatus where
  "StatusPending = ''pending''"

definition StatusRunning :: SyncStatus where
  "StatusRunning = ''running''"

definition StatusCompleted :: SyncStatus where
  "StatusCompleted = ''completed''"

definition StatusFailed :: SyncStatus where
  "StatusFailed = ''failed''"

text \<open>
  \<^verbatim>\<open>time.Time\<close> is an instant on a line: an integer count of nanoseconds, with
  \<^verbatim>\<open>Before\<close> as \<open><\<close> and \<^verbatim>\<open>After\<close> as \<open>>\<close>. A \<^verbatim>\<open>*time.Time\<close> that may be nil
  is an option.
\<close>

type_synonym Time = int

text \<open>
  A \<^verbatim>\<open>chan string\<close> made by \<^verbatim>\<open>make(chan string, 100)\<close> lives in a store of
  channels and is named by its index there: the task's listener list and the
  subscriber that reads from the channel share the same object.
\<close>

type_synonym chan_ref = nat

record SyncTask =
  ID :: string
  SourceImage :: string
  DestImage :: string
  Architecture :: string
  Status :: SyncStatus
  Message :: string
  Output :: string
  ErrorOutput :: string
  StartTime :: Time
  EndTime :: "Time option"
  LogLines :: "string list"
  LogListeners :: "chan_ref list"

definition NewSyncTask :: "Time \<Rightarrow> string \<Rightarrow> string \<Rightarrow> string \<Rightarrow> string \<Rightarrow> SyncTask" where
  \<comment> \<open>the first argument is the value of \<^verbatim>\<open>time.Now()\<close>\<close>
  "NewSyncTask now tid sourceImage destImage architecture =
     \<lparr> ID = tid, SourceImage = sourceImage, DestImage = destImage,
       Architecture = architecture, Status = StatusPending,
       Message = ''Task created'', Output = [], ErrorOutput = [],
       StartTime = now, EndTime = None, LogLines = [], LogListeners = [] \<rparr>"

record SyncRequest =
  req_SourceImage :: string
  req_DestImage :: string
  SourceUsername :: string
  SourcePassword :: string
  DestUsername :: string
  DestPassword :: string
  req_Architecture :: string
  SrcTLSVerify :: "bool option"
  DestTLSVerify :: "bool option"

text \<open>
  Go's \<^verbatim>\<open>error\<close> values: the repository's sentinel, an error that only carries a
  message (\<^verbatim>\<open>fmt.Errorf\<close> without \<^verbatim>\<open>%w\<close>, or an error of the standard library),
  and \<^verbatim>\<open>fmt.Errorf("<prefix>: %w", err)\<close>. \<^verbatim>\<open>nil\<close> is \<open>None\<close>.
\<close>

datatype go_error =
    ErrTaskNotFound
  | ErrorString string
  | Wrap string go_error

fun Error :: "go_error \<Rightarrow> string" where
  "Error ErrTaskNotFound = ''task not found''"
| "Error (ErrorString s) = s"
| "Error (Wrap p e) = p @ '': '' @ Error e"


section \<open>Task registry (package repository)\<close>

text \<open>
  \<^verbatim>\<open>InMemoryTaskRepository\<close> is a Go map from identifier to task, every method
  under the repository's lock. Each method returns its \<^verbatim>\<open>error\<close> result (and
  the task, for \<^verbatim>\<open>Get\<close>) and the map after the call.
\<close>

type_synonym TaskRepo = "string \<rightharpoonup> SyncTask"

definition NewInMemoryTaskRepository :: TaskRepo where
  "NewInMemoryTaskRepository = Map.empty"

definition Create :: "TaskRepo \<Rightarrow> SyncTask \<Rightarrow> go_error option \<times> TaskRepo" where
  "Create r task = (None, r(ID task \<mapsto> task))"

definition Get :: "TaskRepo \<Rightarrow> string \<Rightarrow> go_error + SyncTask" where
  "Get r tid = (case r tid of None \<Rightarrow> Inl ErrTaskNotFound | Some task \<Rightarrow> Inr task)"

definition Update :: "TaskRepo \<Rightarrow> SyncTask \<Rightarrow> go_error option \<times> TaskRepo" where
  "Update r task =
     (if r (ID task) = None then (Some ErrTaskNotFound, r)
      else (None, r(ID task \<mapsto> task)))"

definition Delete :: "TaskRepo \<Rightarrow> string \<Rightarrow> go_error option \<times> TaskRepo" where
  "Delete r tid =
     (if r tid = None then (Some ErrTaskNotFound, r)
      else (None, r(tid := None)))"


section \<open>Library functions used by the service\<close>

text \<open>
  The functions of Go's \<^verbatim>\<open>strings\<close> and \<^verbatim>\<open>fmt\<close> packages that the service calls,
  on byte strings. \<^verbatim>\<open>strings.Split(s, sep)\<close> with a one-byte separator returns
  the pieces between the separators, one more than there are separators (so one
  empty piece for the empty string); \<^verbatim>\<open>strings.Join\<close> puts the separator between
  the elements; \<^verbatim>\<open>%v\<close> prints a boolean as \<^verbatim>\<open>true\<close> or \<^verbatim>\<open>false\<close>.
\<close>

fun Split :: "string \<Rightarrow> char \<Rightarrow> string list" where
  "Split [] sep = [[]]"
| "Split (c # cs) sep =
     (if c = sep then [] # Split cs sep
      else (case Split cs sep of
              [] \<Rightarrow> [[c]]
            | p # ps \<Rightarrow> (c # p) # ps))"

fun Join :: "string list \<Rightarrow> string \<Rightarrow> string" where
  "Join [] sep = []"
| "Join [x] sep = x"
| "Join (x # y # ys) sep = x @ sep @ Join (y # ys) sep"

definition HasPrefix :: "string \<Rightarrow> string \<Rightarrow> bool" where
  "HasPrefix s pre = (take (length pre) s = pre)"

definition fmt_bool :: "bool \<Rightarrow> string" where
  "fmt_bool b = (if b then ''true'' else ''false'')"


section \<open>Command construction (package service)\<close>


text \<open>
  \<^verbatim>\<open>buildSkopeoArgs\<close> returns the argument list and, on its way, appends lines to
  the task's log. The two are given by two functions that follow the same
  branches: the arguments returned, and the lines passed to \<^verbatim>\<open>AddLog\<close> in order.
\<close>

definition buildSkopeoArgs :: "SyncTask \<Rightarrow> SyncRequest \<Rightarrow> string list" where
  "buildSkopeoArgs task req =
     (let args = [''copy''];
          srcTLSVerify = (case SrcTLSVerify req of None \<Rightarrow> True | Some b \<Rightarrow> b);
          destTLSVerify = (case DestTLSVerify req of None \<Rightarrow> True | Some b \<Rightarrow> b);
          args = args @ [''--src-tls-verify='' @ fmt_bool srcTLSVerify];
          args = args @ [''--dest-tls-verify='' @ fmt_bool destTLSVerify];
          args = (if SourceUsername req \<noteq> [] \<and> SourcePassword req \<noteq> []
                  then args @ [''--src-creds'', SourceUsername req @ '':'' @ SourcePassword req]
                  else args);
          args = (if DestUsername req \<noteq> [] \<and> DestPassword req \<noteq> []
                  then args @ [''--dest-creds'', DestUsername req @ '':'' @ DestPassword req]
                  else args);
          args = (if Architecture task = ''all'' then args @ [''--all'']
                  else if Architecture task \<noteq> [] then
                    (let parts = Split (Architecture task) (CHR ''/'')
                     in if length parts \<ge> 2 then
                          (let args = args @ [''--override-os'', parts ! 0];
                               args = args @ [''--override-arch'', parts ! 1]
                           in if length parts > 2
                              then args @ [''--override-variant'', parts ! 2]
                              else args)
                        else args)
                  else args);
          args = args @ [''docker://'' @ SourceImage task];
          args = args @ [''docker://'' @ DestImage task]
      in args)"

definition buildSkopeoArgs_logs :: "SyncTask \<Rightarrow> SyncRequest \<Rightarrow> string list" where
  "buildSkopeoArgs_logs task req =
     (if SourceUsername req \<noteq> [] \<and> SourcePassword req \<noteq> []
      then [''Using source credentials''] else []) @
     (if DestUsername req \<noteq> [] \<and> DestPassword req \<noteq> []
      then [''Using destination credentials''] else []) @
     (if Architecture task = ''all'' then [''Copying all architectures'']
      else if Architecture task \<noteq> [] then
        (if length (Split (Architecture task) (CHR ''/'')) \<ge> 2
         then [''Copying architecture: '' @ Architecture task] else [])
      else [])"

text \<open>
  \<^verbatim>\<open>sanitizeCommand\<close>: the loop over the arguments carries the flag \<^verbatim>\<open>skipNext\<close>
  and fills \<^verbatim>\<open>sanitized\<close> position by position.
\<close>

fun sanitize_loop :: "bool \<Rightarrow> string list \<Rightarrow> string list" where
  "sanitize_loop skipNext [] = []"
| "sanitize_loop skipNext (arg # args) =
     (if skipNext then ''***:***'' # sanitize_loop False args
      else if HasPrefix arg ''--src-creds='' \<or> HasPrefix arg ''--dest-creds=''
        then (Split arg (CHR ''='') ! 0 @ ''=***:***'') # sanitize_loop skipNext args
      else if arg = ''--creds'' \<or> arg = ''--src-creds'' \<or> arg = ''--dest-creds''
        then arg # sanitize_loop True args
      else arg # sanitize_loop skipNext args)"

definition sanitizeCommand :: "string list \<Rightarrow> string" where
  "sanitizeCommand args = ''skopeo '' @ Join (sanitize_loop False args) '' ''"

text \<open>The line \<^verbatim>\<open>ExecuteSync\<close> appends before it runs the command.\<close>

definition Executing_line :: "SyncTask \<Rightarrow> SyncRequest \<Rightarrow> string" where
  "Executing_line task req = ''Executing: '' @ sanitizeCommand (buildSkopeoArgs task req)"


section \<open>Task listing (package service)\<close>

text \<open>
  \<^verbatim>\<open>sortTasks\<close> is a bubble sort in place. The comparison of the inner loop's
  body is \<open>shouldSwap\<close>; the two loops run over indices as the source's do, and
  the slice after the loops is the result.
\<close>

definition shouldSwap :: "string \<Rightarrow> string \<Rightarrow> SyncTask \<Rightarrow> SyncTask \<Rightarrow> bool" where
  "shouldSwap sortBy sortOrder a b =
     (if sortBy = ''endTime'' then
        (case (EndTime a, EndTime b) of
           (None, Some t2) \<Rightarrow> sortOrder = ''asc''
         | (Some t1, None) \<Rightarrow> sortOrder = ''desc''
         | (Some t1, Some t2) \<Rightarrow> (if sortOrder = ''desc'' then t1 < t2 else t1 > t2)
         | (None, None) \<Rightarrow> False)
      else
        (if sortOrder = ''desc'' then StartTime a < StartTime b
         else StartTime a > StartTime b))"

function sort_inner :: "('a \<Rightarrow> 'a \<Rightarrow> bool) \<Rightarrow> 'a list \<Rightarrow> nat \<Rightarrow> nat \<Rightarrow> 'a list" where
  "sort_inner sw tasks i j =
     (if j < length tasks - i - 1 then
        sort_inner sw
          (if sw (tasks ! j) (tasks ! (j + 1))
           then tasks[j := tasks ! (j + 1), j + 1 := tasks ! j]
           else tasks)
          i (j + 1)
      else tasks)"
  by pat_completeness auto
termination
  by (relation "measure (\<lambda>(sw, tasks, i, j). length tasks - i - 1 - j)") auto

declare sort_inner.simps [simp del]

lemma length_sort_inner [simp]: "length (sort_inner sw tasks i j) = length tasks"
proof (induction sw tasks i j rule: sort_inner.induct)
  case (1 sw tasks i j)
  show ?case
  proof (cases "j < length tasks - i - 1")
    case True
    with "1.IH" show ?thesis
      by (subst sort_inner.simps) simp
  next
    case False
    then show ?thesis
      by (subst sort_inner.simps) simp
  qed
qed

function sort_outer :: "('a \<Rightarrow> 'a \<Rightarrow> bool) \<Rightarrow> 'a list \<Rightarrow> nat \<Rightarrow> 'a list" where
  "sort_outer sw tasks i =
     (if i < length tasks - 1 then sort_outer sw (sort_inner sw tasks i 0) (i + 1)
      else tasks)"
  by pat_completeness auto
termination
  by (relation "measure (\<lambda>(sw, tasks, i). length tasks - 1 - i)") auto

declare sort_outer.simps [simp del]

definition sortTasks :: "SyncTask list \<Rightarrow> string \<Rightarrow> string \<Rightarrow> SyncTask list" where
  "sortTasks tasks sortBy sortOrder =
     (if length tasks \<le> 1 then tasks
      else sort_outer (shouldSwap sortBy sortOrder) tasks 0)"

text \<open>
  \<^verbatim>\<open>ListTasks\<close>. Go's \<^verbatim>\<open>int\<close> is a signed 64-bit integer on the platforms the
  service is built for: the page number and the page size come from the query
  string as such, and \<^verbatim>\<open>(page - 1) * pageSize\<close> and \<^verbatim>\<open>start + pageSize\<close> wrap
  around. The length of a slice always fits, so \<^verbatim>\<open>total\<close> is an integer. The
  slice expression \<^verbatim>\<open>filtered[start:end]\<close> panics unless
  \<open>0 \<le> start \<le> end \<le> cap\<close>. The first argument is the slice that
  \<^verbatim>\<open>repo.List()\<close> returned, in whatever order the map was iterated.
\<close>

record TaskListRequest =
  Page :: "64 word"
  PageSize :: "64 word"
  filter_Status :: SyncStatus
  SortBy :: string
  SortOrder :: string

record TaskSummary =
  sum_ID :: string
  sum_SourceImage :: string
  sum_DestImage :: string
  sum_Architecture :: string
  sum_Status :: SyncStatus
  sum_Message :: string
  sum_StartTime :: Time
  sum_EndTime :: "Time option"

record TaskListResponse =
  Total :: int
  resp_Page :: "64 word"
  resp_PageSize :: "64 word"
  Tasks :: "TaskSummary list"

datatype go_panic = SliceBoundsOutOfRange | SendOnClosedChannel | CloseOfClosedChannel

definition toSummary :: "SyncTask \<Rightarrow> TaskSummary" where
  "toSummary task =
     \<lparr> sum_ID = ID task, sum_SourceImage = SourceImage task, sum_DestImage = DestImage task,
       sum_Architecture = Architecture task, sum_Status = Status task,
       sum_Message = Message task, sum_StartTime = StartTime task,
       sum_EndTime = EndTime task \<rparr>"

definition ListTasks :: "SyncTask list \<Rightarrow> TaskListRequest \<Rightarrow> go_panic + TaskListResponse" where
  "ListTasks tasks req =
     (let filtered = (if filter_Status req \<noteq> []
                      then filter (\<lambda>task. Status task = filter_Status req) tasks
                      else tasks);
          filtered = sortTasks filtered (SortBy req) (SortOrder req);
          total = int (length filtered);
          page = Page req;
          page = (if sint page < 1 then 1 else page);
          pageSize = PageSize req;
          pageSize = (if sint pageSize < 1 then 20 else pageSize);
          pageSize = (if sint pageSize > 100 then 100 else pageSize);
          start = (page - 1) * pageSize;
          endi = start + pageSize;
          start = (if sint start > total then total else sint start);
          endi = (if sint endi > total then total else sint endi)
      in if 0 \<le> start \<and> start \<le> endi
         then Inr \<lparr> Total = total, resp_Page = page, resp_PageSize = pageSize,
                    Tasks = map toSummary
                              (take (nat endi - nat start) (drop (nat start) filtered)) \<rparr>
         else Inl SliceBoundsOutOfRange)"


section \<open>Example inputs\<close>

text \<open>A request and the task made from it, used where a theorem is applied to a concrete input.\<close>

definition example_request :: SyncRequest where
  "example_request =
     \<lparr> req_SourceImage = ''docker.io/library/nginx:latest'',
       req_DestImage = ''registry.example.com/nginx:latest'',
       SourceUsername = ''alice'', SourcePassword = [],
       DestUsername = ''bob'', DestPassword = ''hunter2'',
       req_Architecture = ''linux/arm64/v8'',
       SrcTLSVerify = None, DestTLSVerify = Some False \<rparr>"

definition example_task :: SyncTask where
  "example_task =
     NewSyncTask 1700000000 ''task-1'' ''docker.io/library/nginx:latest''
       ''registry.example.com/nginx:latest'' ''linux/arm64/v8''"


section \<open>Properties of the registry\<close>

text \<open>
  C10. \<^verbatim>\<open>Create\<close> never fails: its error result is nil for every repository
  and every task. Afterwards the task's identifier maps to the new task; every
  other identifier maps to what it mapped to before; and whatever a lookup
  returns afterwards is the new task or an entry stored under another
  identifier before, so a task stored earlier under the same identifier is no
  longer returned for it and no error reports the replacement.
\<close>

theorem Create_never_fails_and_replaces:
  "fst (Create r task) = None \<and>
   Get (snd (Create r task)) (ID task) = Inr task \<and>
   (\<forall>k. k \<noteq> ID task \<longrightarrow> Get (snd (Create r task)) k = Get r k) \<and>
   (\<forall>k t. Get (snd (Create r task)) k = Inr t \<longrightarrow>
       t = task \<or> (k \<noteq> ID task \<and> Get r k = Inr t)) \<and>
   dom (snd (Create r task)) = insert (ID task) (dom r)"
  by (auto simp: Create_def Get_def split: option.splits if_splits)

theorem Create_never_fails_and_replaces_witness:
  "fst (Create (snd (Create NewInMemoryTaskRepository (NewSyncTask 1 ''t1'' ''a'' ''b'' ''all'')))
          (NewSyncTask 2 ''t1'' ''c'' ''d'' ''all'')) = None \<and>
   Get (snd (Create (snd (Create NewInMemoryTaskRepository (NewSyncTask 1 ''t1'' ''a'' ''b'' ''all'')))
          (NewSyncTask 2 ''t1'' ''c'' ''d'' ''all''))) ''t1''
     = Inr (NewSyncTask 2 ''t1'' ''c'' ''d'' ''all'') \<and>
   Get (snd (Create (snd (Create NewInMemoryTaskRepository (NewSyncTask 1 ''t1'' ''a'' ''b'' ''all'')))
          (NewSyncTask 2 ''t1'' ''c'' ''d'' ''all''))) ''t1''
     \<noteq> Inr (NewSyncTask 1 ''t1'' ''a'' ''b'' ''all'')"
  using Create_never_fails_and_replaces
    [of "snd (Create NewInMemoryTaskRepository (NewSyncTask 1 ''t1'' ''a'' ''b'' ''all''))"
        "NewSyncTask 2 ''t1'' ''c'' ''d'' ''all''"]
  by (simp add: NewSyncTask_def)

section \<open>Properties of command construction\<close>

lemma Split_nonempty: "Split s c \<noteq> []"
  by (induction s) (auto split: list.splits)



lemma Split_length_one: "length (Split s c) < 2 \<Longrightarrow> c \<notin> set s"
  by (induction s) (auto split: list.splits if_splits simp: Split_nonempty)

lemma buildSkopeoArgs_parts:
  "buildSkopeoArgs task req =
     [''copy'',
      ''--src-tls-verify='' @ fmt_bool (case SrcTLSVerify req of None \<Rightarrow> True | Some b \<Rightarrow> b),
      ''--dest-tls-verify='' @ fmt_bool (case DestTLSVerify req of None \<Rightarrow> True | Some b \<Rightarrow> b)] @
     (if SourceUsername req \<noteq> [] \<and> SourcePassword req \<noteq> []
      then [''--src-creds'', SourceUsername req @ '':'' @ SourcePassword req] else []) @
     (if DestUsername req \<noteq> [] \<and> DestPassword req \<noteq> []
      then [''--dest-creds'', DestUsername req @ '':'' @ DestPassword req] else []) @
     (if Architecture task = ''all'' then [''--all'']
      else if Architecture task \<noteq> [] \<and> length (Split (Architecture task) (CHR ''/'')) \<ge> 2
      then [''--override-os'', Split (Architecture task) (CHR ''/'') ! 0,
            ''--override-arch'', Split (Architecture task) (CHR ''/'') ! 1] @
           (if length (Split (Architecture task) (CHR ''/'')) > 2
            then [''--override-variant'', Split (Architecture task) (CHR ''/'') ! 2] else [])
      else []) @
     [''docker://'' @ SourceImage task, ''docker://'' @ DestImage task]"
  by (simp add: buildSkopeoArgs_def Let_def)






lemma sanitize_loop_docker [simp]:
  "sanitize_loop False [''docker://'' @ a, ''docker://'' @ b] = [''docker://'' @ a, ''docker://'' @ b]"
  by (simp add: HasPrefix_def)

lemma sanitize_loop_build:
  "sanitize_loop False (buildSkopeoArgs task req) =
     take 3 (buildSkopeoArgs task (req\<lparr>SourceUsername := [], SourcePassword := [],
                                         DestUsername := [], DestPassword := []\<rparr>)) @
     (if SourceUsername req \<noteq> [] \<and> SourcePassword req \<noteq> []
      then [''--src-creds'', ''***:***''] else []) @
     (if DestUsername req \<noteq> [] \<and> DestPassword req \<noteq> []
      then [''--dest-creds'', ''***:***''] else []) @
     sanitize_loop False
       (drop 3 (buildSkopeoArgs task (req\<lparr>SourceUsername := [], SourcePassword := [],
                                         DestUsername := [], DestPassword := []\<rparr>)))"
  unfolding buildSkopeoArgs_parts
  by (simp add: HasPrefix_def fmt_bool_def)

text \<open>
  C6. Two requests that differ only in the values of their user names and
  passwords, each value empty in both or non-empty in both, give the same
  \<^verbatim>\<open>Executing: ...\<close> line. In the sanitized argument list each credential flag
  that the command has is followed by \<^verbatim>\<open>***:***\<close> in place of
  \<^verbatim>\<open>user:password\<close>; the rest is the sanitized command of the request without
  credentials.
\<close>

theorem executing_line_masks_credentials:
  assumes "req2 = req1\<lparr>SourceUsername := su, SourcePassword := sp,
                        DestUsername := du, DestPassword := dp\<rparr>"
    and "(su = []) = (SourceUsername req1 = [])"
    and "(sp = []) = (SourcePassword req1 = [])"
    and "(du = []) = (DestUsername req1 = [])"
    and "(dp = []) = (DestPassword req1 = [])"
  shows "Executing_line task req1 = Executing_line task req2 \<and>
     sanitize_loop False (buildSkopeoArgs task req1) =
       take 3 (buildSkopeoArgs task (req1\<lparr>SourceUsername := [], SourcePassword := [],
                                         DestUsername := [], DestPassword := []\<rparr>)) @
       (if SourceUsername req1 \<noteq> [] \<and> SourcePassword req1 \<noteq> []
        then [''--src-creds'', ''***:***''] else []) @
       (if DestUsername req1 \<noteq> [] \<and> DestPassword req1 \<noteq> []
        then [''--dest-creds'', ''***:***''] else []) @
       sanitize_loop False
         (drop 3 (buildSkopeoArgs task (req1\<lparr>SourceUsername := [], SourcePassword := [],
                                         DestUsername := [], DestPassword := []\<rparr>)))"
proof -
  have "sanitize_loop False (buildSkopeoArgs task req1) =
        sanitize_loop False (buildSkopeoArgs task req2)"
    unfolding sanitize_loop_build [of task req1] sanitize_loop_build [of task req2]
    using assms by simp
  then have "Executing_line task req1 = Executing_line task req2"
    by (simp add: Executing_line_def sanitizeCommand_def)
  then show ?thesis
    using sanitize_loop_build [of task req1] by simp
qed

theorem executing_line_masks_credentials_witness:
  "Executing_line example_task (example_request\<lparr>SourcePassword := ''pw1''\<rparr>) =
   Executing_line example_task
     (example_request\<lparr>SourceUsername := ''carol'', SourcePassword := ''other'',
                       DestUsername := ''dave'', DestPassword := ''secret''\<rparr>) \<and>
   Executing_line example_task (example_request\<lparr>SourcePassword := ''pw1''\<rparr>) =
     ''Executing: skopeo copy --src-tls-verify=true --dest-tls-verify=false --src-creds ***:*** --dest-creds ***:*** --override-os linux --override-arch arm64 --override-variant v8 docker://docker.io/library/nginx:latest docker://registry.example.com/nginx:latest''"
  using executing_line_masks_credentials
    [where ?req2.0 = "example_request\<lparr>SourceUsername := ''carol'', SourcePassword := ''other'',
                       DestUsername := ''dave'', DestPassword := ''secret''\<rparr>"
       and ?req1.0 = "example_request\<lparr>SourcePassword := ''pw1''\<rparr>"
       and su = "''carol''" and sp = "''other''" and du = "''dave''" and dp = "''secret''"
       and task = example_task]
  by (simp add: example_task_def example_request_def NewSyncTask_def Let_def
        buildSkopeoArgs_def fmt_bool_def Executing_line_def sanitizeCommand_def HasPrefix_def)

end
